theory Spec2Isabelle
  imports Main
begin

section \<open>The gateway of \<^verbatim>\<open>pkg/proxy/proxy.go\<close>\<close>

text \<open>
  The handlers of \<^verbatim>\<open>proxy.go\<close> are embedded as functions on the request and on the
  state of the response writer. Go strings are byte sequences, so \<open>string\<close> (a list of
  8-bit characters) with \<open>length\<close>, \<open>take\<close> and \<open>drop\<close> is \<^verbatim>\<open>len(s)\<close>, \<^verbatim>\<open>s[:n]\<close> and
  \<^verbatim>\<open>s[n:]\<close> wherever the index is in range; where it may not be, the run-time panic is a
  branch of the model.
\<close>

subsection \<open>Data of \<^verbatim>\<open>net/http\<close> that the handlers read and write\<close>

text \<open>
  \<^verbatim>\<open>http.Header\<close> and \<^verbatim>\<open>url.Values\<close> are maps from a key to a list of values. The keys the
  program uses (\<^verbatim>\<open>Authorization\<close>, \<^verbatim>\<open>Content-Type\<close>, \<^verbatim>\<open>Location\<close>) are already in canonical
  form, so the canonicalisation done by \<^verbatim>\<open>Get\<close> and \<^verbatim>\<open>Set\<close> is the identity on them.
\<close>

type_synonym Header = "string \<rightharpoonup> string list"

type_synonym Values = "string \<rightharpoonup> string list"

definition values_of :: "(string \<rightharpoonup> string list) \<Rightarrow> string \<Rightarrow> string list" where
  "values_of m key = (case m key of None \<Rightarrow> [] | Some vs \<Rightarrow> vs)"

text \<open>\<^verbatim>\<open>Header.Get\<close> and \<^verbatim>\<open>Values.Get\<close>: the first value of the key, or the empty string.\<close>

definition Header_Get :: "Header \<Rightarrow> string \<Rightarrow> string" where
  "Header_Get h key = (case values_of h key of [] \<Rightarrow> [] | v # _ \<Rightarrow> v)"

definition Values_Get :: "Values \<Rightarrow> string \<Rightarrow> string" where
  "Values_Get v key = (case values_of v key of [] \<Rightarrow> [] | x # _ \<Rightarrow> x)"

text \<open>\<^verbatim>\<open>Header.Set\<close> replaces whatever values the key had by the single new one.\<close>

definition Header_Set :: "Header \<Rightarrow> string \<Rightarrow> string \<Rightarrow> Header" where
  "Header_Set h key v = h(key \<mapsto> [v])"

datatype SameSite = SameSiteDefaultMode | SameSiteLaxMode | SameSiteStrictMode | SameSiteNoneMode

text \<open>
  \<^verbatim>\<open>http.Cookie\<close>, with the fields the program sets; every other field of the struct keeps
  its zero value in all three places that build a cookie.
\<close>

record Cookie =
  Name :: string
  Value :: string
  CookiePath :: string
  SameSite :: SameSite
  HttpOnly :: bool

text \<open>
  \<^verbatim>\<open>url.URL\<close>. \<open>Query\<close> holds what \<^verbatim>\<open>URL.Query()\<close> returns, the parsed query string.
\<close>

record URL =
  Scheme :: string
  Host :: string
  Path :: string
  Query :: Values

text \<open>
  \<^verbatim>\<open>http.Request\<close>. \<open>Cookies\<close> is the list \<^verbatim>\<open>r.Cookies()\<close> parses out of the \<^verbatim>\<open>Cookie\<close>
  request header, in order. \<open>PostForm\<close> and \<open>MultipartForm\<close> are the parsed body
  parameters that \<^verbatim>\<open>r.FormValue\<close> consults.
\<close>

record Request =
  Method :: string
  URL :: URL
  Header :: Header
  Cookies :: "Cookie list"
  PostForm :: Values
  MultipartForm :: Values

datatype error = Error string

definition ErrNoCookie :: error where
  "ErrNoCookie = Error ''http: named cookie not present''"

text \<open>\<^verbatim>\<open>r.Cookie(name)\<close>: the first cookie of that name, or \<^verbatim>\<open>ErrNoCookie\<close>.\<close>

definition Request_Cookie :: "Request \<Rightarrow> string \<Rightarrow> error + Cookie" where
  "Request_Cookie r name =
     (if name = [] then Inl ErrNoCookie
      else case find (\<lambda>c. Name c = name) (Cookies r) of
             None \<Rightarrow> Inl ErrNoCookie
           | Some c \<Rightarrow> Inr c)"

text \<open>
  \<^verbatim>\<open>r.FormValue(key)\<close>: the first value of the key in \<^verbatim>\<open>r.Form\<close>, where the parameters of a
  url-encoded body come first, then those of the query string, then those of a
  multipart body.
\<close>

definition FormValue :: "Request \<Rightarrow> string \<Rightarrow> string" where
  "FormValue r key =
     (case values_of (PostForm r) key @ values_of (Query (URL r)) key
             @ values_of (MultipartForm r) key of
        [] \<Rightarrow> []
      | v # _ \<Rightarrow> v)"

subsection \<open>The response writer\<close>

text \<open>
  \<^verbatim>\<open>http.ResponseWriter\<close>, by the contract its documentation states: \<^verbatim>\<open>Header()\<close> is the map
  the handler edits; \<^verbatim>\<open>WriteHeader(code)\<close> sends the status line together with the header map
  as it is at that moment, and a change to the map after that call has no effect on the
  response; a second \<^verbatim>\<open>WriteHeader\<close> is ignored; \<^verbatim>\<open>Write\<close> calls \<^verbatim>\<open>WriteHeader(200)\<close> first
  if nothing was sent yet.

  \<open>header\<close> and \<open>cookies\<close> are the handler's map, \<open>sentHeader\<close> and \<open>sentCookies\<close> what went
  out with the status line. The \<^verbatim>\<open>Set-Cookie\<close> lines are kept apart from the other header
  fields, one struct per line, holding the name and the attribute values as
  \<^verbatim>\<open>Cookie.String()\<close> writes them into the line (see \<open>SetCookie\<close> below). Only the final
  status codes the program uses (302, 307, 403 and the implicit 200) are meant;
  informational codes are not modelled.
\<close>

record ResponseWriter =
  header :: Header
  cookies :: "Cookie list"
  wroteHeader :: bool
  status :: nat
  sentHeader :: Header
  sentCookies :: "Cookie list"
  body :: string

definition new_ResponseWriter :: ResponseWriter where
  "new_ResponseWriter =
     \<lparr>header = Map.empty, cookies = [], wroteHeader = False, status = 0,
      sentHeader = Map.empty, sentCookies = [], body = []\<rparr>"

definition WriteHeader :: "ResponseWriter \<Rightarrow> nat \<Rightarrow> ResponseWriter" where
  "WriteHeader w code =
     (if wroteHeader w then w
      else w\<lparr>wroteHeader := True, status := code,
             sentHeader := header w, sentCookies := cookies w\<rparr>)"

definition Write :: "ResponseWriter \<Rightarrow> string \<Rightarrow> ResponseWriter" where
  "Write w p =
     (let w' = (if wroteHeader w then w else WriteHeader w 200)
      in w'\<lparr>body := body w' @ p\<rparr>)"

text \<open>\<^verbatim>\<open>w.Header().Set(key, v)\<close>: it edits the handler's map, sent or not.\<close>

definition ResponseWriter_Header_Set :: "ResponseWriter \<Rightarrow> string \<Rightarrow> string \<Rightarrow> ResponseWriter" where
  "ResponseWriter_Header_Set w key v = w\<lparr>header := Header_Set (header w) key v\<rparr>"

text \<open>
  \<^verbatim>\<open>http.SetCookie(w, cookie)\<close> adds the line \<^verbatim>\<open>cookie.String()\<close> to \<^verbatim>\<open>w.Header()\<close>, unless
  that string is empty, which it is exactly when the name is not a valid token.
  \<^verbatim>\<open>Cookie.String()\<close> does not write the value and the path as they are: it drops every
  byte that is not valid there, and puts a value that contains a space or a comma
  between double quotes. The functions below are those of \<^verbatim>\<open>net/http\<close>'s \<^verbatim>\<open>cookie.go\<close>;
  bytes are compared by their codes.
\<close>

definition isTokenByte :: "char \<Rightarrow> bool" where
  "isTokenByte c \<longleftrightarrow>
     (0x30 \<le> (of_char c :: nat) \<and> (of_char c :: nat) \<le> 0x39)
     \<or> (0x41 \<le> (of_char c :: nat) \<and> (of_char c :: nat) \<le> 0x5A)
     \<or> (0x61 \<le> (of_char c :: nat) \<and> (of_char c :: nat) \<le> 0x7A)
     \<or> c \<in> set ''!#$%&*+-.^_|~'' \<or> c = CHR 0x27 \<or> c = CHR 0x60"

definition isCookieNameValid :: "string \<Rightarrow> bool" where
  "isCookieNameValid raw = (if raw = [] then False else list_all isTokenByte raw)"

definition validCookieValueByte :: "char \<Rightarrow> bool" where
  "validCookieValueByte b \<longleftrightarrow>
     0x20 \<le> (of_char b :: nat) \<and> (of_char b :: nat) < 0x7f
     \<and> b \<noteq> CHR ''\"'' \<and> b \<noteq> CHR '';'' \<and> b \<noteq> CHR 0x5C"

definition validCookiePathByte :: "char \<Rightarrow> bool" where
  "validCookiePathByte b \<longleftrightarrow>
     0x20 \<le> (of_char b :: nat) \<and> (of_char b :: nat) < 0x7f \<and> b \<noteq> CHR '';''"

text \<open>\<^verbatim>\<open>sanitizeOrWarn\<close>: the string itself when every byte is valid, else its valid bytes.\<close>

definition sanitizeOrWarn :: "(char \<Rightarrow> bool) \<Rightarrow> string \<Rightarrow> string" where
  "sanitizeOrWarn valid v = (if list_all valid v then v else filter valid v)"

definition sanitizeCookieValue :: "string \<Rightarrow> string" where
  "sanitizeCookieValue v =
     (let v = sanitizeOrWarn validCookieValueByte v in
      if length v = 0 then v
      else if CHR '' '' \<in> set v \<or> CHR '','' \<in> set v then ''\"'' @ v @ ''\"''
      else v)"

definition sanitizeCookiePath :: "string \<Rightarrow> string" where
  "sanitizeCookiePath v = sanitizeOrWarn validCookiePathByte v"

text \<open>
  The struct appended to \<open>cookies\<close> stands for the line that was added: its \<open>Value\<close> and
  \<open>CookiePath\<close> are the texts written after \<^verbatim>\<open>Name=\<close> and \<^verbatim>\<open>Path=\<close>. The order and spelling of
  the attributes in the line are not modelled.
\<close>

definition SetCookie :: "ResponseWriter \<Rightarrow> Cookie \<Rightarrow> ResponseWriter" where
  "SetCookie w c =
     (if isCookieNameValid (Name c)
      then w\<lparr>cookies := cookies w @
              [c\<lparr>Value := sanitizeCookieValue (Value c),
                 CookiePath := sanitizeCookiePath (CookiePath c)\<rparr>]\<rparr>
      else w)"

text \<open>
  \<^verbatim>\<open>http.Redirect(w, r, url, code)\<close> sets \<^verbatim>\<open>Location\<close> and calls \<^verbatim>\<open>WriteHeader(code)\<close>. The
  target is kept as the \<open>url\<close> argument the program passes; \<^verbatim>\<open>net/http\<close> resolves a
  relative target against the request path and cleans it before it writes the header,
  and for a GET adds a short hypertext body. Neither is modelled.
\<close>

definition Redirect :: "ResponseWriter \<Rightarrow> Request \<Rightarrow> string \<Rightarrow> nat \<Rightarrow> ResponseWriter" where
  "Redirect w r url code = WriteHeader (ResponseWriter_Header_Set w ''Location'' url) code"

subsection \<open>The server and its handlers\<close>

record rsa_PublicKey =
  N :: int
  E :: int

text \<open>
  \<^verbatim>\<open>Server\<close>, without \<^verbatim>\<open>APITransport\<close> and \<^verbatim>\<open>Auth2Config\<close>: pointers to objects of
  \<^verbatim>\<open>net/http\<close> and \<^verbatim>\<open>oauth2\<close> that only \<^verbatim>\<open>Login\<close>, \<^verbatim>\<open>Callback\<close> and the transport use.
\<close>

record Server =
  APIPath :: string
  APIServerURL :: string
  BaseAddress :: string
  IssuerEndpoint :: string
  LoginEndpoint :: string
  BearerToken :: string
  BearerTokenPassthrough :: bool
  JWTTokenKey :: string
  JWTTokenRSAKey :: "rsa_PublicKey option"
  InteractiveAuth :: bool

definition ocgateSessionCookieName :: string where
  "ocgateSessionCookieName = ''ocgate-session-token''"

definition StatusFound :: nat where "StatusFound = 302"
definition StatusTemporaryRedirect :: nat where "StatusTemporaryRedirect = 307"
definition StatusForbidden :: nat where "StatusForbidden = 403"

text \<open>
  \<^verbatim>\<open>handleError\<close>, statement by statement: the status is written first, the content type
  is set on the map afterwards, then the body is printed. The format's \<^verbatim>\<open>%s\<close> is the
  error's message and \<^verbatim>\<open>%d\<close> is 403.
\<close>

definition handleError :: "ResponseWriter \<Rightarrow> error \<Rightarrow> ResponseWriter" where
  "handleError w err =
     (case err of Error msg \<Rightarrow>
        Write
          (ResponseWriter_Header_Set (WriteHeader w StatusForbidden)
             ''Content-Type'' ''application/json'')
          (''{\"kind\": \"Status\", \"api\": \"ocgate\", \"status\": \"Forbidden\", \"message\": \"''
             @ msg @ ''\",\"code\": '' @ ''403'' @ ''}''))"

text \<open>
  \<^verbatim>\<open>GetRequestToken\<close> returns the pair \<^verbatim>\<open>(string, error)\<close>; \<open>None\<close> is the \<^verbatim>\<open>nil\<close> error.
\<close>

definition GetRequestToken :: "Request \<Rightarrow> string \<times> error option" where
  "GetRequestToken r =
     (let authorization = Header_Get (Header r) ''Authorization'' in
      if length authorization > 7 \<and> take 7 authorization = ''Bearer ''
      then (drop 7 authorization, None)
      else case Request_Cookie r ocgateSessionCookieName of
             Inl err \<Rightarrow> ([], Some err)
           | Inr cookie \<Rightarrow>
               if Value cookie = [] then ([], None) else (Value cookie, None))"

text \<open>
  \<^verbatim>\<open>Token\<close>, the manual login handler. \<open>token\<close> and \<open>thn\<close> (the source's \<^verbatim>\<open>then\<close>) start
  empty; a GET fills them from the query string, a POST from \<^verbatim>\<open>r.FormValue\<close>; any other
  method leaves them empty.
\<close>

definition Token :: "Server \<Rightarrow> ResponseWriter \<Rightarrow> Request \<Rightarrow> ResponseWriter" where
  "Token s w r =
     (let (token, thn) = ([], []);
          (token, thn) =
            (if Method r = ''GET''
             then (Values_Get (Query (URL r)) ''token'', Values_Get (Query (URL r)) ''then'')
             else (token, thn));
          (token, thn) =
            (if Method r = ''POST''
             then (FormValue r ''token'', FormValue r ''then'')
             else (token, thn))
      in if token = [] then handleError w (Error ''token parameter is missing'')
         else
           let thn = (if thn = [] then ''/'' else thn) in
           Redirect
             (SetCookie w
                \<lparr>Name = ocgateSessionCookieName, Value = token, CookiePath = ''/'',
                 SameSite = SameSiteLaxMode, HttpOnly = True\<rparr>)
             r thn StatusFound)"

text \<open>
  What a run of the middleware ends in: \<open>Next w r\<close> is the call
  \<^verbatim>\<open>next.ServeHTTP(w, r)\<close> with the request as the middleware left it; \<open>Done w\<close> is a
  return without that call, the response written by the middleware itself.
\<close>

datatype outcome = is_Next: Next ResponseWriter Request | Done ResponseWriter

text \<open>
  \<^verbatim>\<open>validateToken\<close> belongs to another file of the package. The middleware only tests the
  error it returns, so it is a parameter here, with the six arguments of the call and
  the pair \<^verbatim>\<open>(claims, error)\<close> as result.
\<close>

type_synonym 'c validator =
  "string \<Rightarrow> string \<Rightarrow> rsa_PublicKey option \<Rightarrow> string \<Rightarrow> string \<Rightarrow> string \<Rightarrow> 'c \<times> error option"

text \<open>
  \<^verbatim>\<open>AuthMiddleware\<close>, branch by branch in the order of the source. The slice
  \<^verbatim>\<open>r.URL.Path[:len(s.APIPath)]\<close> is only evaluated when the path is longer than
  \<^verbatim>\<open>APIPath\<close>, so \<open>take\<close> is exact. \<^verbatim>\<open>fmt.Sprintf("Bearer %s", t)\<close> is \<open>''Bearer '' @ t\<close>.
\<close>

definition AuthMiddleware ::
    "Server \<Rightarrow> 'c validator \<Rightarrow> ResponseWriter \<Rightarrow> Request \<Rightarrow> outcome" where
  "AuthMiddleware s validateToken w r =
     (if Path (URL r) = ''/login.html'' then Next w r
      else
        let token = fst (GetRequestToken r) in
        if InteractiveAuth s \<and> token = []
        then Done (Redirect w r (LoginEndpoint s) StatusTemporaryRedirect)
        else if token = [] then Done (handleError w (Error ''no token received''))
        else if BearerTokenPassthrough s
        then Next w (r\<lparr>Header := Header_Set (Header r) ''Authorization'' (''Bearer '' @ token)\<rparr>)
        else if length (Path (URL r)) \<le> length (APIPath s)
                \<or> take (length (APIPath s)) (Path (URL r)) \<noteq> APIPath s
        then Next w r
        else
          case snd (validateToken token (JWTTokenKey s) (JWTTokenRSAKey s) (APIPath s)
                      (Method r) (Path (URL r))) of
            Some err \<Rightarrow> Done (handleError w err)
          | None \<Rightarrow>
              Next w (r\<lparr>Header :=
                Header_Set (Header r) ''Authorization'' (''Bearer '' @ BearerToken s)\<rparr>))"

text \<open>
  \<^verbatim>\<open>APIProxy\<close>. \<open>url\<close> is the upstream address as \<^verbatim>\<open>url.Parse(s.APIServerURL)\<close> returned it
  (the parser is \<^verbatim>\<open>net/url\<close>'s, so its result is a parameter). The handler assigns host
  and scheme, then slices the path from index \<^verbatim>\<open>len(s.APIPath)-1\<close>; Go panics when that
  index is negative or beyond the end of the path. \<open>Inr r'\<close> is the request handed to
  \<^verbatim>\<open>proxy.ServeHTTP\<close>.
\<close>

datatype panic = SliceBoundsOutOfRange

definition APIProxy :: "Server \<Rightarrow> URL \<Rightarrow> Request \<Rightarrow> panic + Request" where
  "APIProxy s url r =
     (let u = (URL r)\<lparr>Host := Host url, Scheme := Scheme url\<rparr> in
      if length (APIPath s) = 0 \<or> length (Path u) < length (APIPath s) - 1
      then Inl SliceBoundsOutOfRange
      else Inr (r\<lparr>URL := u\<lparr>Path := drop (length (APIPath s) - 1) (Path u)\<rparr>\<rparr>))"

subsection \<open>Concrete configurations and requests\<close>

definition gateway :: Server where
  "gateway =
     \<lparr>APIPath = ''/k8s/'', APIServerURL = ''https://kubernetes.default.svc'',
      BaseAddress = ''https://kube-gateway.apps-crc.testing'',
      IssuerEndpoint = ''https://kube-gateway.apps-crc.testing/auth/issuer'',
      LoginEndpoint = ''/auth/login'', BearerToken = ''service-credential'',
      BearerTokenPassthrough = False, JWTTokenKey = ''secret'', JWTTokenRSAKey = None,
      InteractiveAuth = False\<rparr>"

definition upstream :: URL where
  "upstream = \<lparr>Scheme = ''https'', Host = ''kubernetes.default.svc'', Path = [], Query = Map.empty\<rparr>"

definition request :: "string \<Rightarrow> string \<Rightarrow> Request" where
  "request m p =
     \<lparr>Method = m,
      URL = \<lparr>Scheme = [], Host = [], Path = p, Query = Map.empty\<rparr>,
      Header = Map.empty, Cookies = [], PostForm = Map.empty, MultipartForm = Map.empty\<rparr>"

definition with_authorization :: "string \<Rightarrow> Request \<Rightarrow> Request" where
  "with_authorization v r = r\<lparr>Header := (Header r)(''Authorization'' \<mapsto> [v])\<rparr>"

definition with_session_cookie :: "string \<Rightarrow> Request \<Rightarrow> Request" where
  "with_session_cookie v r =
     r\<lparr>Cookies := Cookies r @
        [\<lparr>Name = ocgateSessionCookieName, Value = v, CookiePath = [],
          SameSite = SameSiteDefaultMode, HttpOnly = False\<rparr>]\<rparr>"

definition token_submission :: Request where
  "token_submission =
     (request ''POST'' ''/auth/token'')
       \<lparr>PostForm := [''token'' \<mapsto> [''abc123''], ''then'' \<mapsto> [''/dash'']]\<rparr>"

definition token_query :: "string \<Rightarrow> string \<Rightarrow> Request" where
  "token_query m t =
     (request m ''/auth/token'')
       \<lparr>URL := \<lparr>Scheme = [], Host = [], Path = ''/auth/token'',
                Query = [''token'' \<mapsto> [t]]\<rparr>\<rparr>"

definition accept_all :: "unit validator" where
  "accept_all token key rsa apiPath method path = ((), None)"

definition reject_all :: "unit validator" where
  "reject_all token key rsa apiPath method path = ((), Some (Error ''token is not valid''))"

subsection \<open>Unfolding sets\<close>

lemmas writer_defs = WriteHeader_def Write_def ResponseWriter_Header_Set_def
  Redirect_def Header_Set_def Header_Get_def values_of_def
  StatusFound_def StatusTemporaryRedirect_def StatusForbidden_def

lemmas example_defs = gateway_def upstream_def request_def with_authorization_def
  with_session_cookie_def accept_all_def reject_all_def new_ResponseWriter_def
  ocgateSessionCookieName_def token_submission_def token_query_def

subsection \<open>Facts about the writer and the concrete requests\<close>

lemma Request_Cookie_session:
  "Request_Cookie (with_session_cookie v (request m p)) ocgateSessionCookieName
     = Inr \<lparr>Name = ocgateSessionCookieName, Value = v, CookiePath = [],
          SameSite = SameSiteDefaultMode, HttpOnly = False\<rparr>"
  by (simp add: Request_Cookie_def example_defs)

lemma Request_Cookie_none:
  "Request_Cookie (request m p) ocgateSessionCookieName = Inl ErrNoCookie"
  by (simp add: Request_Cookie_def example_defs)

lemma handleError_fresh:
  assumes "\<not> wroteHeader w"
  shows "status (handleError w (Error msg)) = 403"
    and "body (handleError w (Error msg)) = body w @
       ''{\"kind\": \"Status\", \"api\": \"ocgate\", \"status\": \"Forbidden\", \"message\": \"''
         @ msg @ ''\",\"code\": 403}''"
    and "cookies (handleError w (Error msg)) = cookies w"
    and "sentCookies (handleError w (Error msg)) = cookies w"
    and "sentHeader (handleError w (Error msg)) = header w"
  using assms by (simp_all add: handleError_def writer_defs)

lemma Redirect_fresh:
  assumes "\<not> wroteHeader w"
  shows "status (Redirect w r url code) = code"
    and "Header_Get (sentHeader (Redirect w r url code)) ''Location'' = url"
    and "sentCookies (Redirect w r url code) = cookies w"
    and "body (Redirect w r url code) = body w"
  using assms by (simp_all add: writer_defs)

lemma isCookieNameValid_session: "isCookieNameValid ocgateSessionCookieName"
  by (simp add: isCookieNameValid_def isTokenByte_def ocgateSessionCookieName_def)

lemma sanitizeCookieValue_valid:
  assumes "list_all validCookieValueByte v"
    and "CHR '' '' \<notin> set v" and "CHR '','' \<notin> set v"
  shows "sanitizeCookieValue v = v"
  using assms by (simp add: sanitizeCookieValue_def sanitizeOrWarn_def)

lemma sanitizeCookiePath_root: "sanitizeCookiePath ''/'' = ''/''"
  by (simp add: sanitizeCookiePath_def sanitizeOrWarn_def validCookiePathByte_def)

lemma SetCookie_session:
  "SetCookie w
     \<lparr>Name = ocgateSessionCookieName, Value = v, CookiePath = ''/'',
      SameSite = SameSiteLaxMode, HttpOnly = True\<rparr>
   = w\<lparr>cookies := cookies w @
        [\<lparr>Name = ocgateSessionCookieName, Value = sanitizeCookieValue v, CookiePath = ''/'',
          SameSite = SameSiteLaxMode, HttpOnly = True\<rparr>]\<rparr>"
  using isCookieNameValid_session by (simp add: SetCookie_def sanitizeCookiePath_root)

lemma GetRequestToken_anonymous:
  "GetRequestToken (request m p) = ([], Some ErrNoCookie)"
  by (simp add: GetRequestToken_def Request_Cookie_def Header_Get_def values_of_def example_defs)

lemma FormValue_PostForm:
  "PostForm r key = Some (v # vs) \<Longrightarrow> FormValue r key = v"
  by (simp add: FormValue_def values_of_def)

lemma GetRequestToken_with_authorization:
  "GetRequestToken (with_authorization (''Bearer '' @ t) (request m p))
     = (if t = [] then ([], Some ErrNoCookie) else (t, None))"
  by (simp add: GetRequestToken_def Request_Cookie_def Header_Get_def values_of_def example_defs)

lemma AuthMiddleware_passthrough_example:
  "AuthMiddleware (gateway\<lparr>BearerTokenPassthrough := True\<rparr>) reject_all new_ResponseWriter
     (with_session_cookie ''abc123'' (request ''GET'' ''/k8s/pods''))
   = Next new_ResponseWriter
       ((with_session_cookie ''abc123'' (request ''GET'' ''/k8s/pods''))
          \<lparr>Header := [''Authorization'' \<mapsto> [''Bearer abc123'']]\<rparr>)"
  by (simp add: AuthMiddleware_def GetRequestToken_def Request_Cookie_def Header_Get_def
      Header_Set_def values_of_def Let_def example_defs)

lemma AuthMiddleware_translate_example:
  "AuthMiddleware gateway accept_all new_ResponseWriter
     (with_authorization ''Bearer abc123'' (request ''GET'' ''/k8s/pods''))
   = Next new_ResponseWriter
       ((with_authorization ''Bearer abc123'' (request ''GET'' ''/k8s/pods''))
          \<lparr>Header := [''Authorization'' \<mapsto> [''Bearer service-credential'']]\<rparr>)"
  by (simp add: AuthMiddleware_def GetRequestToken_def Request_Cookie_def Header_Get_def
      Header_Set_def values_of_def Let_def example_defs)

section \<open>Credential extraction\<close>

text \<open>
  C5. A request whose \<^verbatim>\<open>Authorization\<close> header is \<^verbatim>\<open>Bearer \<close> (seven characters, compared
  byte by byte) followed by a non-empty \<open>X\<close>: \<^verbatim>\<open>GetRequestToken\<close> returns exactly \<open>X\<close>
  and no error, whatever cookies the request carries.
\<close>

theorem GetRequestToken_bearer:
  assumes "Header_Get (Header r) ''Authorization'' = ''Bearer '' @ X"
    and "X \<noteq> []"
  shows "GetRequestToken r = (X, None)"
  using assms by (simp add: GetRequestToken_def)

theorem GetRequestToken_bearer_witness:
  "Header_Get (Header (with_session_cookie ''from-cookie''
       (with_authorization ''Bearer abc123'' (request ''GET'' ''/k8s/pods'')))) ''Authorization''
     = ''Bearer '' @ ''abc123''
   \<and> ''abc123'' \<noteq> []
   \<and> GetRequestToken (with_session_cookie ''from-cookie''
       (with_authorization ''Bearer abc123'' (request ''GET'' ''/k8s/pods''))) = (''abc123'', None)"
proof -
  let ?r = "with_session_cookie ''from-cookie''
       (with_authorization ''Bearer abc123'' (request ''GET'' ''/k8s/pods''))"
  have h: "Header_Get (Header ?r) ''Authorization'' = ''Bearer '' @ ''abc123''"
    by (simp add: Header_Get_def values_of_def example_defs)
  have n: "''abc123'' \<noteq> []" by simp
  from GetRequestToken_bearer [OF h n] h show ?thesis by simp
qed

text \<open>
  C6. A request whose \<^verbatim>\<open>Authorization\<close> header carries no bearer credential (the test of
  \<^verbatim>\<open>GetRequestToken\<close> fails: no header, another scheme, or nothing after \<^verbatim>\<open>Bearer \<close>): when
  the session cookie is present with a non-empty value, that value is returned; when
  there is no session cookie, the result is empty, with the error of \<^verbatim>\<open>r.Cookie\<close>.
\<close>

theorem GetRequestToken_cookie:
  assumes "\<not> (length (Header_Get (Header r) ''Authorization'') > 7
              \<and> take 7 (Header_Get (Header r) ''Authorization'') = ''Bearer '')"
  shows "(Request_Cookie r ocgateSessionCookieName = Inr c \<longrightarrow> Value c \<noteq> []
            \<longrightarrow> GetRequestToken r = (Value c, None))
       \<and> (Request_Cookie r ocgateSessionCookieName = Inl e
            \<longrightarrow> GetRequestToken r = ([], Some e))"
  using assms by (auto simp add: GetRequestToken_def)

theorem GetRequestToken_cookie_witness:
  "\<not> (length (Header_Get (Header (with_session_cookie ''Y-token'' (request ''GET'' ''/k8s/pods'')))
                 ''Authorization'') > 7)
   \<and> GetRequestToken (with_session_cookie ''Y-token'' (request ''GET'' ''/k8s/pods''))
       = (''Y-token'', None)
   \<and> Header_Get (Header (request ''GET'' ''/k8s/pods'')) ''Authorization'' = []
   \<and> GetRequestToken (request ''GET'' ''/k8s/pods'') = ([], Some ErrNoCookie)"
proof -
  let ?r1 = "with_session_cookie ''Y-token'' (request ''GET'' ''/k8s/pods'')"
  let ?r2 = "request ''GET'' ''/k8s/pods''"
  let ?c = "\<lparr>Name = ocgateSessionCookieName, Value = ''Y-token'', CookiePath = [],
          SameSite = SameSiteDefaultMode, HttpOnly = False\<rparr>"
  have a1: "Header_Get (Header ?r1) ''Authorization'' = []"
    by (simp add: Header_Get_def values_of_def example_defs)
  have a2: "Header_Get (Header ?r2) ''Authorization'' = []"
    by (simp add: Header_Get_def values_of_def example_defs)
  have h1: "\<not> (length (Header_Get (Header ?r1) ''Authorization'') > 7
              \<and> take 7 (Header_Get (Header ?r1) ''Authorization'') = ''Bearer '')"
    by (simp add: a1)
  have h2: "\<not> (length (Header_Get (Header ?r2) ''Authorization'') > 7
              \<and> take 7 (Header_Get (Header ?r2) ''Authorization'') = ''Bearer '')"
    by (simp add: a2)
  from GetRequestToken_cookie [OF h1, of ?c] Request_Cookie_session
  have t1: "GetRequestToken ?r1 = (''Y-token'', None)" by simp
  from GetRequestToken_cookie [OF h2, of _ ErrNoCookie] Request_Cookie_none
  have t2: "GetRequestToken ?r2 = ([], Some ErrNoCookie)" by simp
  from a1 a2 t1 t2 show ?thesis by simp
qed

section \<open>The authorization error response\<close>

text \<open>
  C4. What \<^verbatim>\<open>handleError\<close> sends on a fresh response writer: status 403 and the body of
  the fixed shape. The content type is set on the handler's map after the status line
  went out, so the header that was sent has no \<^verbatim>\<open>Content-Type: application/json\<close>.
\<close>

theorem handleError_content_type_not_sent:
  "status (handleError new_ResponseWriter (Error msg)) = 403
   \<and> sentHeader (handleError new_ResponseWriter (Error msg)) ''Content-Type'' = None
   \<and> header (handleError new_ResponseWriter (Error msg)) ''Content-Type''
       = Some [''application/json'']
   \<and> body (handleError new_ResponseWriter (Error msg)) =
       ''{\"kind\": \"Status\", \"api\": \"ocgate\", \"status\": \"Forbidden\", \"message\": \"''
         @ msg @ ''\",\"code\": 403}''"
  by (simp add: handleError_def writer_defs new_ResponseWriter_def)

section \<open>The middleware\<close>

text \<open>
  C7. A request other than to \<^verbatim>\<open>/login.html\<close> from which no credential is extracted: in
  interactive mode the middleware redirects with 307 to the login endpoint, otherwise
  it answers with the 403 error \<^verbatim>\<open>no token received\<close>; in both cases \<^verbatim>\<open>next\<close> is not called.
\<close>

theorem AuthMiddleware_no_credential:
  assumes "Path (URL r) \<noteq> ''/login.html''"
    and "fst (GetRequestToken r) = []"
  shows "(InteractiveAuth s \<longrightarrow>
            AuthMiddleware s vt w r = Done (Redirect w r (LoginEndpoint s) StatusTemporaryRedirect)
            \<and> (\<not> wroteHeader w \<longrightarrow>
                 status (Redirect w r (LoginEndpoint s) StatusTemporaryRedirect) = 307
                 \<and> Header_Get (sentHeader (Redirect w r (LoginEndpoint s) StatusTemporaryRedirect))
                      ''Location'' = LoginEndpoint s))
       \<and> (\<not> InteractiveAuth s \<longrightarrow>
            AuthMiddleware s vt w r = Done (handleError w (Error ''no token received''))
            \<and> (\<not> wroteHeader w \<longrightarrow>
                 status (handleError w (Error ''no token received'')) = 403
                 \<and> body (handleError w (Error ''no token received'')) = body w @
                      ''{\"kind\": \"Status\", \"api\": \"ocgate\", \"status\": \"Forbidden\", \"message\": \"no token received\",\"code\": 403}''))
       \<and> \<not> is_Next (AuthMiddleware s vt w r)"
  using assms
  by (simp add: AuthMiddleware_def handleError_fresh Redirect_fresh StatusTemporaryRedirect_def)

theorem AuthMiddleware_no_credential_witness:
  "Path (URL (request ''GET'' ''/api/v1/pods'')) \<noteq> ''/login.html''
   \<and> fst (GetRequestToken (request ''GET'' ''/api/v1/pods'')) = []
   \<and> InteractiveAuth (gateway\<lparr>InteractiveAuth := True\<rparr>)
   \<and> AuthMiddleware (gateway\<lparr>InteractiveAuth := True\<rparr>) accept_all new_ResponseWriter
         (request ''GET'' ''/api/v1/pods'')
       = Done (Redirect new_ResponseWriter (request ''GET'' ''/api/v1/pods'') ''/auth/login'' 307)
   \<and> status (Redirect new_ResponseWriter (request ''GET'' ''/api/v1/pods'') ''/auth/login'' 307) = 307
   \<and> \<not> InteractiveAuth gateway
   \<and> AuthMiddleware gateway accept_all new_ResponseWriter (request ''GET'' ''/api/v1/pods'')
       = Done (handleError new_ResponseWriter (Error ''no token received''))
   \<and> status (handleError new_ResponseWriter (Error ''no token received'')) = 403
   \<and> \<not> is_Next (AuthMiddleware gateway accept_all new_ResponseWriter
         (request ''GET'' ''/api/v1/pods''))"
proof -
  let ?r = "request ''GET'' ''/api/v1/pods''"
  have p: "Path (URL ?r) \<noteq> ''/login.html''" by (simp add: request_def)
  have t: "fst (GetRequestToken ?r) = []" by (simp add: GetRequestToken_anonymous)
  have f: "\<not> wroteHeader new_ResponseWriter" by (simp add: new_ResponseWriter_def)
  have i: "InteractiveAuth (gateway\<lparr>InteractiveAuth := True\<rparr>)" by simp
  have n: "\<not> InteractiveAuth gateway" by (simp add: gateway_def)
  have l: "LoginEndpoint (gateway\<lparr>InteractiveAuth := True\<rparr>) = ''/auth/login''"
    by (simp add: gateway_def)
  from AuthMiddleware_no_credential [OF p t, of "gateway\<lparr>InteractiveAuth := True\<rparr>" accept_all new_ResponseWriter]
    AuthMiddleware_no_credential [OF p t, of gateway accept_all new_ResponseWriter]
    p t f i n l
  show ?thesis by (simp add: StatusTemporaryRedirect_def)
qed

section \<open>Manual token submission\<close>

text \<open>
  The cookie that \<^verbatim>\<open>Token\<close> sets does not always hold the token that was submitted. A GET
  whose query parameter \<^verbatim>\<open>token\<close> is \<^verbatim>\<open>a;b\<close> (sent as \<^verbatim>\<open>token=a%3Bb\<close>) is answered with the
  302 redirect and a session cookie whose value is \<^verbatim>\<open>ab\<close>: the semicolon is not a valid
  byte of a cookie value and is dropped when the cookie is written.
\<close>

theorem Token_cookie_value_sanitized:
  "Method (token_query ''GET'' ''a;b'') = ''GET''
   \<and> Values_Get (Query (URL (token_query ''GET'' ''a;b''))) ''token'' = ''a;b''
   \<and> status (Token gateway new_ResponseWriter (token_query ''GET'' ''a;b'')) = 302
   \<and> sentCookies (Token gateway new_ResponseWriter (token_query ''GET'' ''a;b''))
       = [\<lparr>Name = ''ocgate-session-token'', Value = ''ab'', CookiePath = ''/'',
           SameSite = SameSiteLaxMode, HttpOnly = True\<rparr>]
   \<and> ''ab'' \<noteq> ''a;b''"
  by (simp add: Token_def Values_Get_def values_of_def token_query_def request_def
      new_ResponseWriter_def gateway_def ocgateSessionCookieName_def SetCookie_def
      isCookieNameValid_def isTokenByte_def sanitizeCookieValue_def sanitizeCookiePath_def
      sanitizeOrWarn_def validCookieValueByte_def validCookiePathByte_def Let_def writer_defs)

text \<open>
  C8, with the cookie value as it is written. For every request, \<open>T\<close> and \<open>th\<close> are what
  \<^verbatim>\<open>Token\<close> reads: the query parameters \<^verbatim>\<open>token\<close> and \<^verbatim>\<open>then\<close> of a GET, the form values of
  those names of a POST, and the empty string for any other method. With \<open>T\<close> empty the
  response is the 403 error (a status of the 4xx class) and no cookie is added. With
  \<open>T\<close> not empty the response is \<^verbatim>\<open>http.Redirect\<close> to \<open>th\<close>, or to \<^verbatim>\<open>/\<close> when \<open>th\<close> is empty,
  with status 302, and the session cookie is added with the value
  \<open>sanitizeCookieValue T\<close>; that is \<open>T\<close> itself when every byte of \<open>T\<close> is valid in a cookie
  value and \<open>T\<close> has no space and no comma.
\<close>

theorem Token_manual_login:
  assumes "\<not> wroteHeader w"
    and "T = (if Method r = ''POST'' then FormValue r ''token''
              else if Method r = ''GET'' then Values_Get (Query (URL r)) ''token''
              else [])"
    and "th = (if Method r = ''POST'' then FormValue r ''then''
               else if Method r = ''GET'' then Values_Get (Query (URL r)) ''then''
               else [])"
  shows "(T = [] \<longrightarrow>
            Token s w r = handleError w (Error ''token parameter is missing'')
            \<and> status (Token s w r) = 403
            \<and> 400 \<le> status (Token s w r) \<and> status (Token s w r) < 500
            \<and> cookies (Token s w r) = cookies w
            \<and> sentCookies (Token s w r) = cookies w)
       \<and> (T \<noteq> [] \<longrightarrow>
            Token s w r =
              Redirect
                (SetCookie w
                   \<lparr>Name = ''ocgate-session-token'', Value = T, CookiePath = ''/'',
                    SameSite = SameSiteLaxMode, HttpOnly = True\<rparr>)
                r (if th = [] then ''/'' else th) 302
            \<and> status (Token s w r) = 302
            \<and> sentCookies (Token s w r) = cookies w @
                 [\<lparr>Name = ''ocgate-session-token'', Value = sanitizeCookieValue T,
                   CookiePath = ''/'', SameSite = SameSiteLaxMode, HttpOnly = True\<rparr>]
            \<and> (list_all validCookieValueByte T \<and> CHR '' '' \<notin> set T \<and> CHR '','' \<notin> set T
                 \<longrightarrow> sanitizeCookieValue T = T))"
proof -
  let ?c = "\<lparr>Name = ocgateSessionCookieName, Value = T, CookiePath = ''/'',
             SameSite = SameSiteLaxMode, HttpOnly = True\<rparr>"
  have g: "(''GET'' :: string) \<noteq> ''POST''" by simp
  from assms(2,3) have tok: "Token s w r =
     (if T = [] then handleError w (Error ''token parameter is missing'')
      else Redirect (SetCookie w ?c) r (if th = [] then ''/'' else th) StatusFound)"
    using g by (auto simp add: Token_def Let_def)
  have c: "\<not> wroteHeader (SetCookie w ?c)"
    using assms(1) by (simp add: SetCookie_session)
  have k: "cookies (SetCookie w ?c) = cookies w @
     [\<lparr>Name = ocgateSessionCookieName, Value = sanitizeCookieValue T, CookiePath = ''/'',
       SameSite = SameSiteLaxMode, HttpOnly = True\<rparr>]"
    by (simp add: SetCookie_session)
  show ?thesis
    using assms(1) c k
    by (simp add: tok handleError_fresh Redirect_fresh StatusFound_def
        ocgateSessionCookieName_def sanitizeCookieValue_valid)
qed

theorem Token_manual_login_witness:
  "\<not> wroteHeader new_ResponseWriter
   \<and> Method token_submission = ''POST''
   \<and> FormValue token_submission ''token'' = ''abc123''
   \<and> FormValue token_submission ''then'' = ''/dash''
   \<and> Token gateway new_ResponseWriter token_submission
       = Redirect
           (SetCookie new_ResponseWriter
              \<lparr>Name = ''ocgate-session-token'', Value = ''abc123'', CookiePath = ''/'',
               SameSite = SameSiteLaxMode, HttpOnly = True\<rparr>)
           token_submission ''/dash'' 302
   \<and> status (Token gateway new_ResponseWriter token_submission) = 302
   \<and> sentCookies (Token gateway new_ResponseWriter token_submission)
       = [\<lparr>Name = ''ocgate-session-token'', Value = ''abc123'', CookiePath = ''/'',
           SameSite = SameSiteLaxMode, HttpOnly = True\<rparr>]
   \<and> Method (request ''GET'' ''/auth/token'') = ''GET''
   \<and> Values_Get (Query (URL (request ''GET'' ''/auth/token''))) ''token'' = []
   \<and> status (Token gateway new_ResponseWriter (request ''GET'' ''/auth/token'')) = 403
   \<and> sentCookies (Token gateway new_ResponseWriter (request ''GET'' ''/auth/token'')) = []
   \<and> Method (token_query ''PUT'' ''abc123'') = ''PUT''
   \<and> status (Token gateway new_ResponseWriter (token_query ''PUT'' ''abc123'')) = 403
   \<and> sentCookies (Token gateway new_ResponseWriter (token_query ''PUT'' ''abc123'')) = []"
proof -
  let ?g = "request ''GET'' ''/auth/token''"
  let ?u = "token_query ''PUT'' ''abc123''"
  let ?k = "\<lparr>Name = ''ocgate-session-token'', Value = ''abc123'', CookiePath = ''/'',
             SameSite = SameSiteLaxMode, HttpOnly = True\<rparr>"
  have f: "\<not> wroteHeader new_ResponseWriter" by (simp add: new_ResponseWriter_def)
  have c: "cookies new_ResponseWriter = []" by (simp add: new_ResponseWriter_def)
  have pm: "Method token_submission = ''POST''"
    by (simp add: token_submission_def request_def)
  have pt: "FormValue token_submission ''token'' = ''abc123''"
    by (rule FormValue_PostForm [where vs = "[]"]) (simp add: token_submission_def)
  have ph: "FormValue token_submission ''then'' = ''/dash''"
    by (rule FormValue_PostForm [where vs = "[]"]) (simp add: token_submission_def)
  have gm: "Method ?g = ''GET''" by (simp add: request_def)
  have gt: "Values_Get (Query (URL ?g)) ''token'' = []"
    by (simp add: Values_Get_def values_of_def request_def)
  have um: "Method ?u = ''PUT''" by (simp add: token_query_def request_def)
  have pT: "''abc123'' = (if Method token_submission = ''POST''
              then FormValue token_submission ''token''
              else if Method token_submission = ''GET''
              then Values_Get (Query (URL token_submission)) ''token'' else [])"
    by (simp add: pm pt)
  have pH: "''/dash'' = (if Method token_submission = ''POST''
              then FormValue token_submission ''then''
              else if Method token_submission = ''GET''
              then Values_Get (Query (URL token_submission)) ''then'' else [])"
    by (simp add: pm ph)
  have gT: "[] = (if Method ?g = ''POST'' then FormValue ?g ''token''
              else if Method ?g = ''GET'' then Values_Get (Query (URL ?g)) ''token'' else [])"
    by (simp add: Values_Get_def values_of_def request_def)
  have gH: "[] = (if Method ?g = ''POST'' then FormValue ?g ''then''
              else if Method ?g = ''GET'' then Values_Get (Query (URL ?g)) ''then'' else [])"
    by (simp add: Values_Get_def values_of_def request_def)
  have uT: "[] = (if Method ?u = ''POST'' then FormValue ?u ''token''
              else if Method ?u = ''GET'' then Values_Get (Query (URL ?u)) ''token'' else [])"
    by (simp add: um)
  have uH: "[] = (if Method ?u = ''POST'' then FormValue ?u ''then''
              else if Method ?u = ''GET'' then Values_Get (Query (URL ?u)) ''then'' else [])"
    by (simp add: um)
  have ne: "''abc123'' \<noteq> []" by simp
  have v: "list_all validCookieValueByte ''abc123'' \<and> CHR '' '' \<notin> set ''abc123''
             \<and> CHR '','' \<notin> set ''abc123''"
    by (simp add: validCookieValueByte_def)
  from Token_manual_login [OF f pT pH, of gateway] ne v
  have P: "Token gateway new_ResponseWriter token_submission
             = Redirect (SetCookie new_ResponseWriter ?k) token_submission
                 (if ''/dash'' = [] then ''/'' else ''/dash'') 302
      \<and> status (Token gateway new_ResponseWriter token_submission) = 302
      \<and> sentCookies (Token gateway new_ResponseWriter token_submission) =
          cookies new_ResponseWriter @
            [\<lparr>Name = ''ocgate-session-token'', Value = sanitizeCookieValue ''abc123'',
              CookiePath = ''/'', SameSite = SameSiteLaxMode, HttpOnly = True\<rparr>]
      \<and> sanitizeCookieValue ''abc123'' = ''abc123''"
    by blast
  from Token_manual_login [OF f gT gH, of gateway]
  have G: "status (Token gateway new_ResponseWriter ?g) = 403
      \<and> sentCookies (Token gateway new_ResponseWriter ?g) = cookies new_ResponseWriter"
    by blast
  from Token_manual_login [OF f uT uH, of gateway]
  have U: "status (Token gateway new_ResponseWriter ?u) = 403
      \<and> sentCookies (Token gateway new_ResponseWriter ?u) = cookies new_ResponseWriter"
    by blast
  from P [THEN conjunct1]
  have p0: "Token gateway new_ResponseWriter token_submission
             = Redirect (SetCookie new_ResponseWriter ?k) token_submission ''/dash'' 302"
    by simp
  from P have p1: "status (Token gateway new_ResponseWriter token_submission) = 302"
    by (rule conjunct2 [THEN conjunct1])
  from P [THEN conjunct2, THEN conjunct2]
  have p3: "sentCookies (Token gateway new_ResponseWriter token_submission) = [?k]"
    by (simp add: c)
  from G have g1: "status (Token gateway new_ResponseWriter ?g) = 403"
    and g2: "sentCookies (Token gateway new_ResponseWriter ?g) = []"
    by (simp_all add: c)
  from U have u1: "status (Token gateway new_ResponseWriter ?u) = 403"
    and u2: "sentCookies (Token gateway new_ResponseWriter ?u) = []"
    by (simp_all add: c)
  from f pm pt ph p0 p1 p3 gm gt g1 g2 um u1 u2 show ?thesis by blast
qed

section \<open>Paths outside the API prefix\<close>

text \<open>
  C9. In translate mode, a request with a credential whose path is not longer than
  \<^verbatim>\<open>APIPath\<close> (a path equal to it included) or does not start with it: the middleware
  calls \<^verbatim>\<open>next\<close> with the writer and the request as they came in. The verifier is a
  free parameter of the statement, so the result is the same for every verifier: it is
  not run, and the \<^verbatim>\<open>Authorization\<close> header is not rewritten.
\<close>

theorem AuthMiddleware_static_path:
  assumes "\<not> BearerTokenPassthrough s"
    and "fst (GetRequestToken r) \<noteq> []"
    and "length (Path (URL r)) \<le> length (APIPath s)
         \<or> take (length (APIPath s)) (Path (URL r)) \<noteq> APIPath s"
  shows "AuthMiddleware s validateToken w r = Next w r"
  using assms by (auto simp add: AuthMiddleware_def Let_def)

theorem AuthMiddleware_static_path_witness:
  "\<not> BearerTokenPassthrough gateway
   \<and> fst (GetRequestToken (with_authorization ''Bearer abc123'' (request ''GET'' ''/k8s/''))) \<noteq> []
   \<and> length (Path (URL (with_authorization ''Bearer abc123'' (request ''GET'' ''/k8s/''))))
       \<le> length (APIPath gateway)
   \<and> AuthMiddleware gateway reject_all new_ResponseWriter
         (with_authorization ''Bearer abc123'' (request ''GET'' ''/k8s/''))
       = Next new_ResponseWriter (with_authorization ''Bearer abc123'' (request ''GET'' ''/k8s/''))
   \<and> take (length (APIPath gateway))
         (Path (URL (with_authorization ''Bearer abc123'' (request ''GET'' ''/index.html''))))
       \<noteq> APIPath gateway
   \<and> AuthMiddleware gateway reject_all new_ResponseWriter
         (with_authorization ''Bearer abc123'' (request ''GET'' ''/index.html''))
       = Next new_ResponseWriter
           (with_authorization ''Bearer abc123'' (request ''GET'' ''/index.html''))"
proof -
  let ?r1 = "with_authorization ''Bearer abc123'' (request ''GET'' ''/k8s/'')"
  let ?r2 = "with_authorization ''Bearer abc123'' (request ''GET'' ''/index.html'')"
  have m: "\<not> BearerTokenPassthrough gateway" by (simp add: gateway_def)
  have t1: "fst (GetRequestToken ?r1) \<noteq> []"
    using GetRequestToken_with_authorization [of "''abc123''"] by simp
  have t2: "fst (GetRequestToken ?r2) \<noteq> []"
    using GetRequestToken_with_authorization [of "''abc123''"] by simp
  have p1: "length (Path (URL ?r1)) \<le> length (APIPath gateway)"
    by (simp add: example_defs)
  have p2: "take (length (APIPath gateway)) (Path (URL ?r2)) \<noteq> APIPath gateway"
    by (simp add: example_defs)
  from AuthMiddleware_static_path [OF m t1 disjI1 [OF p1], of reject_all new_ResponseWriter]
    AuthMiddleware_static_path [OF m t2 disjI2 [OF p2], of reject_all new_ResponseWriter]
    m t1 p1 p2
  show ?thesis by simp
qed

section \<open>Verification in translate mode\<close>

text \<open>
  Two requests that start with the API prefix, carry the credential \<^verbatim>\<open>bad\<close>, would be
  rejected by the verifier, and are forwarded all the same. The login page is let through
  before anything else is looked at: with \<^verbatim>\<open>APIPath = "/"\<close> the path \<^verbatim>\<open>/login.html\<close> lies
  under the prefix. And the verifier is only run for a path strictly longer than the
  prefix: with \<^verbatim>\<open>APIPath = "/k8s/"\<close> the request to \<^verbatim>\<open>/k8s/\<close> itself takes the static branch.
\<close>

theorem AuthMiddleware_forwards_unverified:
  "\<not> BearerTokenPassthrough (gateway\<lparr>APIPath := ''/''\<rparr>)
   \<and> length (APIPath (gateway\<lparr>APIPath := ''/''\<rparr>))
       < length (Path (URL (with_authorization ''Bearer bad'' (request ''GET'' ''/login.html''))))
   \<and> take (length (APIPath (gateway\<lparr>APIPath := ''/''\<rparr>)))
         (Path (URL (with_authorization ''Bearer bad'' (request ''GET'' ''/login.html''))))
       = APIPath (gateway\<lparr>APIPath := ''/''\<rparr>)
   \<and> fst (GetRequestToken (with_authorization ''Bearer bad'' (request ''GET'' ''/login.html'')))
       = ''bad''
   \<and> snd (reject_all ''bad'' ''secret'' None ''/'' ''GET'' ''/login.html'')
       = Some (Error ''token is not valid'')
   \<and> AuthMiddleware (gateway\<lparr>APIPath := ''/''\<rparr>) reject_all new_ResponseWriter
         (with_authorization ''Bearer bad'' (request ''GET'' ''/login.html''))
       = Next new_ResponseWriter (with_authorization ''Bearer bad'' (request ''GET'' ''/login.html''))
   \<and> \<not> BearerTokenPassthrough gateway
   \<and> Path (URL (with_authorization ''Bearer bad'' (request ''GET'' ''/k8s/''))) \<noteq> ''/login.html''
   \<and> take (length (APIPath gateway))
         (Path (URL (with_authorization ''Bearer bad'' (request ''GET'' ''/k8s/''))))
       = APIPath gateway
   \<and> fst (GetRequestToken (with_authorization ''Bearer bad'' (request ''GET'' ''/k8s/''))) = ''bad''
   \<and> snd (reject_all ''bad'' ''secret'' None ''/k8s/'' ''GET'' ''/k8s/'')
       = Some (Error ''token is not valid'')
   \<and> AuthMiddleware gateway reject_all new_ResponseWriter
         (with_authorization ''Bearer bad'' (request ''GET'' ''/k8s/''))
       = Next new_ResponseWriter (with_authorization ''Bearer bad'' (request ''GET'' ''/k8s/''))"
  using GetRequestToken_with_authorization [of "''bad''" "''GET''" "''/login.html''"]
    GetRequestToken_with_authorization [of "''bad''" "''GET''" "''/k8s/''"]
  by (simp add: AuthMiddleware_def gateway_def request_def with_authorization_def reject_all_def)

text \<open>
  C1, for every request other than to \<^verbatim>\<open>/login.html\<close>. In translate mode, with the path
  strictly longer than \<^verbatim>\<open>APIPath\<close> and starting with it, and a credential extracted: the
  middleware calls \<^verbatim>\<open>next\<close> if and only if \<^verbatim>\<open>validateToken\<close> returns no error, and then with
  the service credential attached; on an error \<open>err\<close> it writes \<^verbatim>\<open>handleError(w, err)\<close>
  and returns without calling \<^verbatim>\<open>next\<close>.
\<close>

theorem AuthMiddleware_verifier_decides:
  assumes "Path (URL r) \<noteq> ''/login.html''"
    and "\<not> BearerTokenPassthrough s"
    and "length (APIPath s) < length (Path (URL r))"
    and "take (length (APIPath s)) (Path (URL r)) = APIPath s"
    and "fst (GetRequestToken r) \<noteq> []"
  shows "(is_Next (AuthMiddleware s validateToken w r) \<longleftrightarrow>
            snd (validateToken (fst (GetRequestToken r)) (JWTTokenKey s) (JWTTokenRSAKey s)
                   (APIPath s) (Method r) (Path (URL r))) = None)
       \<and> (snd (validateToken (fst (GetRequestToken r)) (JWTTokenKey s) (JWTTokenRSAKey s)
                   (APIPath s) (Method r) (Path (URL r))) = None \<longrightarrow>
            AuthMiddleware s validateToken w r =
              Next w (r\<lparr>Header :=
                Header_Set (Header r) ''Authorization'' (''Bearer '' @ BearerToken s)\<rparr>))
       \<and> (snd (validateToken (fst (GetRequestToken r)) (JWTTokenKey s) (JWTTokenRSAKey s)
                   (APIPath s) (Method r) (Path (URL r))) = Some err \<longrightarrow>
            AuthMiddleware s validateToken w r = Done (handleError w err))"
  using assms by (auto simp add: AuthMiddleware_def Let_def split: option.splits)

theorem AuthMiddleware_verifier_decides_witness:
  "Path (URL (with_authorization ''Bearer abc123'' (request ''GET'' ''/k8s/pods''))) \<noteq> ''/login.html''
   \<and> \<not> BearerTokenPassthrough gateway
   \<and> length (APIPath gateway)
       < length (Path (URL (with_authorization ''Bearer abc123'' (request ''GET'' ''/k8s/pods''))))
   \<and> take (length (APIPath gateway))
         (Path (URL (with_authorization ''Bearer abc123'' (request ''GET'' ''/k8s/pods''))))
       = APIPath gateway
   \<and> fst (GetRequestToken (with_authorization ''Bearer abc123'' (request ''GET'' ''/k8s/pods'')))
       \<noteq> []
   \<and> is_Next (AuthMiddleware gateway accept_all new_ResponseWriter
         (with_authorization ''Bearer abc123'' (request ''GET'' ''/k8s/pods'')))
   \<and> \<not> is_Next (AuthMiddleware gateway reject_all new_ResponseWriter
         (with_authorization ''Bearer abc123'' (request ''GET'' ''/k8s/pods'')))
   \<and> AuthMiddleware gateway reject_all new_ResponseWriter
         (with_authorization ''Bearer abc123'' (request ''GET'' ''/k8s/pods''))
       = Done (handleError new_ResponseWriter (Error ''token is not valid''))"
proof -
  let ?r = "with_authorization ''Bearer abc123'' (request ''GET'' ''/k8s/pods'')"
  have p: "Path (URL ?r) \<noteq> ''/login.html''" by (simp add: example_defs)
  have m: "\<not> BearerTokenPassthrough gateway" by (simp add: gateway_def)
  have l: "length (APIPath gateway) < length (Path (URL ?r))" by (simp add: example_defs)
  have x: "take (length (APIPath gateway)) (Path (URL ?r)) = APIPath gateway"
    by (simp add: example_defs)
  have t: "fst (GetRequestToken ?r) \<noteq> []"
    using GetRequestToken_with_authorization [of "''abc123''"] by simp
  have a: "snd (accept_all (fst (GetRequestToken ?r)) (JWTTokenKey gateway)
                 (JWTTokenRSAKey gateway) (APIPath gateway) (Method ?r) (Path (URL ?r))) = None"
    by (simp add: accept_all_def)
  have b: "snd (reject_all (fst (GetRequestToken ?r)) (JWTTokenKey gateway)
                 (JWTTokenRSAKey gateway) (APIPath gateway) (Method ?r) (Path (URL ?r)))
            = Some (Error ''token is not valid'')"
    by (simp add: reject_all_def)
  from AuthMiddleware_verifier_decides [OF p m l x t, of accept_all new_ResponseWriter] a
  have A: "is_Next (AuthMiddleware gateway accept_all new_ResponseWriter ?r)" by blast
  from AuthMiddleware_verifier_decides
         [OF p m l x t, of reject_all new_ResponseWriter "Error ''token is not valid''"] b
  have B: "\<not> is_Next (AuthMiddleware gateway reject_all new_ResponseWriter ?r)"
    and C: "AuthMiddleware gateway reject_all new_ResponseWriter ?r
              = Done (handleError new_ResponseWriter (Error ''token is not valid''))"
    by simp_all
  from p m l x t A B C show ?thesis by blast
qed

section \<open>The outbound identity\<close>

text \<open>
  In pass-through mode a request to \<^verbatim>\<open>/login.html\<close> whose credential \<^verbatim>\<open>abc123\<close> sits in the
  session cookie is forwarded as it came: no \<^verbatim>\<open>Authorization\<close> header is attached.
\<close>

theorem AuthMiddleware_login_page_no_identity:
  "BearerTokenPassthrough (gateway\<lparr>BearerTokenPassthrough := True\<rparr>)
   \<and> fst (GetRequestToken (with_session_cookie ''abc123'' (request ''GET'' ''/login.html'')))
       = ''abc123''
   \<and> AuthMiddleware (gateway\<lparr>BearerTokenPassthrough := True\<rparr>) accept_all new_ResponseWriter
         (with_session_cookie ''abc123'' (request ''GET'' ''/login.html''))
       = Next new_ResponseWriter (with_session_cookie ''abc123'' (request ''GET'' ''/login.html''))
   \<and> Header_Get (Header (with_session_cookie ''abc123'' (request ''GET'' ''/login.html'')))
         ''Authorization'' = []
   \<and> Header_Get (Header (with_session_cookie ''abc123'' (request ''GET'' ''/login.html'')))
         ''Authorization'' \<noteq> ''Bearer '' @ ''abc123''"
  by (simp add: AuthMiddleware_def GetRequestToken_def Request_Cookie_def Header_Get_def
      values_of_def example_defs)

text \<open>
  C2, for every forwarded request other than to \<^verbatim>\<open>/login.html\<close>. In pass-through mode
  the forwarded request is the incoming one with \<^verbatim>\<open>Authorization\<close> set to \<^verbatim>\<open>Bearer \<close>
  followed by the extracted caller credential. In translate mode, when the path is
  under \<^verbatim>\<open>APIPath\<close> (the branch that verifies), the verifier returned no error and
  \<^verbatim>\<open>Authorization\<close> is \<^verbatim>\<open>Bearer \<close> followed by \<^verbatim>\<open>s.BearerToken\<close>, whatever the caller sent.
  The writer is passed on unchanged.
\<close>

theorem AuthMiddleware_outbound_identity:
  assumes "Path (URL r) \<noteq> ''/login.html''"
    and "AuthMiddleware s validateToken w r = Next w' r'"
  shows "(BearerTokenPassthrough s \<longrightarrow>
            r' = r\<lparr>Header := Header_Set (Header r) ''Authorization''
                                (''Bearer '' @ fst (GetRequestToken r))\<rparr>
            \<and> Header_Get (Header r') ''Authorization'' = ''Bearer '' @ fst (GetRequestToken r))
       \<and> (\<not> BearerTokenPassthrough s \<longrightarrow> length (APIPath s) < length (Path (URL r)) \<longrightarrow>
          take (length (APIPath s)) (Path (URL r)) = APIPath s \<longrightarrow>
            snd (validateToken (fst (GetRequestToken r)) (JWTTokenKey s) (JWTTokenRSAKey s)
                   (APIPath s) (Method r) (Path (URL r))) = None
            \<and> r' = r\<lparr>Header := Header_Set (Header r) ''Authorization''
                                (''Bearer '' @ BearerToken s)\<rparr>
            \<and> Header_Get (Header r') ''Authorization'' = ''Bearer '' @ BearerToken s)
       \<and> w' = w"
  using assms
  by (auto simp add: AuthMiddleware_def Let_def Header_Set_def Header_Get_def values_of_def
      split: if_splits option.splits)

theorem AuthMiddleware_outbound_identity_witness:
  "Path (URL (with_session_cookie ''abc123'' (request ''GET'' ''/k8s/pods''))) \<noteq> ''/login.html''
   \<and> BearerTokenPassthrough (gateway\<lparr>BearerTokenPassthrough := True\<rparr>)
   \<and> AuthMiddleware (gateway\<lparr>BearerTokenPassthrough := True\<rparr>) reject_all new_ResponseWriter
        (with_session_cookie ''abc123'' (request ''GET'' ''/k8s/pods''))
      = Next new_ResponseWriter
          ((with_session_cookie ''abc123'' (request ''GET'' ''/k8s/pods''))
             \<lparr>Header := [''Authorization'' \<mapsto> [''Bearer abc123'']]\<rparr>)
   \<and> Header_Get [''Authorization'' \<mapsto> [''Bearer abc123'']] ''Authorization''
      = ''Bearer '' @ fst (GetRequestToken (with_session_cookie ''abc123'' (request ''GET'' ''/k8s/pods'')))
   \<and> Path (URL (with_authorization ''Bearer abc123'' (request ''GET'' ''/k8s/pods''))) \<noteq> ''/login.html''
   \<and> \<not> BearerTokenPassthrough gateway
   \<and> AuthMiddleware gateway accept_all new_ResponseWriter
        (with_authorization ''Bearer abc123'' (request ''GET'' ''/k8s/pods''))
      = Next new_ResponseWriter
          ((with_authorization ''Bearer abc123'' (request ''GET'' ''/k8s/pods''))
             \<lparr>Header := [''Authorization'' \<mapsto> [''Bearer service-credential'']]\<rparr>)
   \<and> Header_Get [''Authorization'' \<mapsto> [''Bearer service-credential'']] ''Authorization''
      = ''Bearer '' @ BearerToken gateway"
proof -
  let ?s = "gateway\<lparr>BearerTokenPassthrough := True\<rparr>"
  let ?r1 = "with_session_cookie ''abc123'' (request ''GET'' ''/k8s/pods'')"
  let ?r2 = "with_authorization ''Bearer abc123'' (request ''GET'' ''/k8s/pods'')"
  let ?r1' = "?r1\<lparr>Header := [''Authorization'' \<mapsto> [''Bearer abc123'']]\<rparr>"
  let ?r2' = "?r2\<lparr>Header := [''Authorization'' \<mapsto> [''Bearer service-credential'']]\<rparr>"
  have p1: "Path (URL ?r1) \<noteq> ''/login.html''" by (simp add: example_defs)
  have p2: "Path (URL ?r2) \<noteq> ''/login.html''" by (simp add: example_defs)
  have m1: "BearerTokenPassthrough ?s" by simp
  have m2: "\<not> BearerTokenPassthrough gateway" by (simp add: gateway_def)
  have l: "length (APIPath gateway) < length (Path (URL ?r2))" by (simp add: example_defs)
  have x: "take (length (APIPath gateway)) (Path (URL ?r2)) = APIPath gateway"
    by (simp add: example_defs)
  note e1 = AuthMiddleware_passthrough_example
  note e2 = AuthMiddleware_translate_example
  from AuthMiddleware_outbound_identity [OF p1 e1] m1
  have h1: "Header_Get (Header ?r1') ''Authorization'' = ''Bearer '' @ fst (GetRequestToken ?r1)"
    by blast
  from AuthMiddleware_outbound_identity [OF p2 e2] m2 l x
  have h2: "Header_Get (Header ?r2') ''Authorization'' = ''Bearer '' @ BearerToken gateway"
    by blast
  from h1 have h1': "Header_Get [''Authorization'' \<mapsto> [''Bearer abc123'']] ''Authorization''
      = ''Bearer '' @ fst (GetRequestToken ?r1)" by simp
  from h2 have h2': "Header_Get [''Authorization'' \<mapsto> [''Bearer service-credential'']] ''Authorization''
      = ''Bearer '' @ BearerToken gateway" by simp
  from p1 m1 e1 h1' p2 m2 e2 h2' show ?thesis by blast
qed

section \<open>The forwarder\<close>

text \<open>
  The handler drops \<^verbatim>\<open>len(s.APIPath)-1\<close> bytes, so what stays in front of the suffix is
  the last byte of \<^verbatim>\<open>APIPath\<close>, whatever it is. With \<^verbatim>\<open>APIPath = "/api"\<close> the request to
  \<^verbatim>\<open>/api/pods\<close> is forwarded with path \<^verbatim>\<open>i/pods\<close>.
\<close>

theorem APIProxy_prefix_without_slash:
  "APIPath (gateway\<lparr>APIPath := ''/api''\<rparr>) = ''/api''
   \<and> Path (URL (request ''GET'' ''/api/pods'')) = APIPath (gateway\<lparr>APIPath := ''/api''\<rparr>) @ ''/pods''
   \<and> APIProxy (gateway\<lparr>APIPath := ''/api''\<rparr>) upstream (request ''GET'' ''/api/pods'')
       = Inr ((request ''GET'' ''/api/pods'')
                \<lparr>URL := \<lparr>Scheme = ''https'', Host = ''kubernetes.default.svc'',
                          Path = ''i/pods'', Query = Map.empty\<rparr>\<rparr>)
   \<and> ''i/pods'' \<noteq> ''/pods''"
  by (simp add: APIProxy_def example_defs)

text \<open>
  C3, for an \<^verbatim>\<open>APIPath\<close> that ends in a slash. A request whose path is \<^verbatim>\<open>APIPath\<close> followed
  by \<open>suffix\<close> is handed to the reverse proxy with the host and the scheme of the
  upstream and with the path \<^verbatim>\<open>/\<close> followed by \<open>suffix\<close>: the prefix is gone, its final
  slash is kept. With \<^verbatim>\<open>APIPath = "/k8s/"\<close>, \<^verbatim>\<open>/k8s/pods\<close> becomes \<^verbatim>\<open>/pods\<close>.
\<close>

theorem APIProxy_strips_prefix:
  assumes "APIPath s = p @ ''/''"
    and "Path (URL r) = APIPath s @ suffix"
  shows "APIProxy s url r =
           Inr (r\<lparr>URL := (URL r)\<lparr>Host := Host url, Scheme := Scheme url,
                                  Path := ''/'' @ suffix\<rparr>\<rparr>)"
  using assms by (simp add: APIProxy_def)

theorem APIProxy_strips_prefix_witness:
  "APIPath gateway = ''/k8s'' @ ''/''
   \<and> Path (URL (request ''GET'' ''/k8s/pods'')) = APIPath gateway @ ''pods''
   \<and> APIProxy gateway upstream (request ''GET'' ''/k8s/pods'')
       = Inr ((request ''GET'' ''/k8s/pods'')
                \<lparr>URL := \<lparr>Scheme = ''https'', Host = ''kubernetes.default.svc'',
                          Path = ''/pods'', Query = Map.empty\<rparr>\<rparr>)"
proof -
  have a: "APIPath gateway = ''/k8s'' @ ''/''" by (simp add: gateway_def)
  have b: "Path (URL (request ''GET'' ''/k8s/pods'')) = APIPath gateway @ ''pods''"
    by (simp add: gateway_def request_def)
  from APIProxy_strips_prefix [OF a b, of upstream] a b
  show ?thesis by (simp add: upstream_def request_def)
qed

text \<open>
  The general shape of the rewritten path, and the panic when \<^verbatim>\<open>APIPath\<close> is empty (the
  slice index is then \<open>-1\<close>).
\<close>

lemma APIProxy_keeps_last_character:
  assumes "APIPath s \<noteq> []"
    and "Path (URL r) = APIPath s @ suffix"
  shows "APIProxy s url r =
           Inr (r\<lparr>URL := (URL r)\<lparr>Host := Host url, Scheme := Scheme url,
                                  Path := last (APIPath s) # suffix\<rparr>\<rparr>)"
proof -
  from assms(1) obtain p c where pc: "APIPath s = p @ [c]"
    by (cases "APIPath s" rule: rev_cases) simp_all
  with assms(2) show ?thesis by (simp add: APIProxy_def)
qed

lemma APIProxy_empty_prefix:
  "APIPath s = [] \<Longrightarrow> APIProxy s url r = Inl SliceBoundsOutOfRange"
  by (simp add: APIProxy_def)

section \<open>Credentials with nothing in them\<close>

text \<open>
  A request to \<^verbatim>\<open>/login.html\<close> with the header \<^verbatim>\<open>Authorization: Bearer \<close> and an empty
  session cookie: no credential is extracted, and the request is forwarded all the same.
\<close>

theorem AuthMiddleware_login_page_empty_bearer:
  "Header_Get (Header (with_session_cookie [] (with_authorization ''Bearer ''
       (request ''GET'' ''/login.html'')))) ''Authorization'' = ''Bearer ''
   \<and> Request_Cookie (with_session_cookie [] (with_authorization ''Bearer ''
       (request ''GET'' ''/login.html''))) ocgateSessionCookieName
       = Inr \<lparr>Name = ocgateSessionCookieName, Value = [], CookiePath = [],
              SameSite = SameSiteDefaultMode, HttpOnly = False\<rparr>
   \<and> fst (GetRequestToken (with_session_cookie [] (with_authorization ''Bearer ''
       (request ''GET'' ''/login.html'')))) = []
   \<and> AuthMiddleware gateway reject_all new_ResponseWriter
         (with_session_cookie [] (with_authorization ''Bearer '' (request ''GET'' ''/login.html'')))
       = Next new_ResponseWriter
          (with_session_cookie [] (with_authorization ''Bearer '' (request ''GET'' ''/login.html'')))
   \<and> is_Next (AuthMiddleware gateway reject_all new_ResponseWriter
         (with_session_cookie [] (with_authorization ''Bearer '' (request ''GET'' ''/login.html''))))"
  by (simp add: AuthMiddleware_def GetRequestToken_def Request_Cookie_def Header_Get_def
      values_of_def example_defs)

text \<open>
  C10, for every request other than to \<^verbatim>\<open>/login.html\<close>. An \<^verbatim>\<open>Authorization\<close> header that
  is exactly \<^verbatim>\<open>Bearer \<close> counts like a missing header, and a session cookie with an empty
  value like a missing cookie: when each source is missing or empty in this way,
  \<^verbatim>\<open>GetRequestToken\<close> returns the empty string (on every path), and the middleware
  answers with the 307 redirect in interactive mode and with the 403 error otherwise,
  without calling \<^verbatim>\<open>next\<close>.
\<close>

theorem AuthMiddleware_degenerate_credential:
  assumes "Header_Get (Header r) ''Authorization'' = ''Bearer ''
           \<or> Header_Get (Header r) ''Authorization'' = []"
    and "case Request_Cookie r ocgateSessionCookieName of
           Inl e \<Rightarrow> True
         | Inr c \<Rightarrow> Value c = []"
  shows "fst (GetRequestToken r) = []
       \<and> (Path (URL r) \<noteq> ''/login.html'' \<longrightarrow>
            AuthMiddleware s validateToken w r =
              Done (if InteractiveAuth s
                    then Redirect w r (LoginEndpoint s) StatusTemporaryRedirect
                    else handleError w (Error ''no token received''))
            \<and> \<not> is_Next (AuthMiddleware s validateToken w r))"
proof -
  from assms have t: "fst (GetRequestToken r) = []"
    by (auto simp add: GetRequestToken_def split: sum.splits)
  then show ?thesis by (simp add: AuthMiddleware_def)
qed

theorem AuthMiddleware_degenerate_credential_witness:
  "Header_Get (Header (with_authorization ''Bearer '' (request ''GET'' ''/k8s/pods'')))
       ''Authorization'' = ''Bearer ''
   \<and> Request_Cookie (with_authorization ''Bearer '' (request ''GET'' ''/k8s/pods''))
       ocgateSessionCookieName = Inl ErrNoCookie
   \<and> Path (URL (with_authorization ''Bearer '' (request ''GET'' ''/k8s/pods''))) \<noteq> ''/login.html''
   \<and> fst (GetRequestToken (with_authorization ''Bearer '' (request ''GET'' ''/k8s/pods''))) = []
   \<and> AuthMiddleware gateway accept_all new_ResponseWriter
        (with_authorization ''Bearer '' (request ''GET'' ''/k8s/pods''))
       = Done (handleError new_ResponseWriter (Error ''no token received''))
   \<and> Header_Get (Header (with_session_cookie [] (request ''GET'' ''/k8s/pods'')))
       ''Authorization'' = []
   \<and> Request_Cookie (with_session_cookie [] (request ''GET'' ''/k8s/pods''))
       ocgateSessionCookieName
       = Inr \<lparr>Name = ocgateSessionCookieName, Value = [], CookiePath = [],
              SameSite = SameSiteDefaultMode, HttpOnly = False\<rparr>
   \<and> Path (URL (with_session_cookie [] (request ''GET'' ''/k8s/pods''))) \<noteq> ''/login.html''
   \<and> fst (GetRequestToken (with_session_cookie [] (request ''GET'' ''/k8s/pods''))) = []
   \<and> AuthMiddleware (gateway\<lparr>InteractiveAuth := True\<rparr>) accept_all new_ResponseWriter
        (with_session_cookie [] (request ''GET'' ''/k8s/pods''))
       = Done (Redirect new_ResponseWriter (with_session_cookie [] (request ''GET'' ''/k8s/pods''))
                 ''/auth/login'' 307)"
proof -
  let ?r1 = "with_authorization ''Bearer '' (request ''GET'' ''/k8s/pods'')"
  let ?r2 = "with_session_cookie [] (request ''GET'' ''/k8s/pods'')"
  let ?c = "\<lparr>Name = ocgateSessionCookieName, Value = [], CookiePath = [],
              SameSite = SameSiteDefaultMode, HttpOnly = False\<rparr>"
  have a1: "Header_Get (Header ?r1) ''Authorization'' = ''Bearer ''"
    by (simp add: Header_Get_def values_of_def example_defs)
  have c1: "Request_Cookie ?r1 ocgateSessionCookieName = Inl ErrNoCookie"
    by (simp add: Request_Cookie_def example_defs)
  have p1: "Path (URL ?r1) \<noteq> ''/login.html''" by (simp add: example_defs)
  have a2: "Header_Get (Header ?r2) ''Authorization'' = []"
    by (simp add: Header_Get_def values_of_def example_defs)
  have c2: "Request_Cookie ?r2 ocgateSessionCookieName = Inr ?c"
    by (rule Request_Cookie_session)
  have p2: "Path (URL ?r2) \<noteq> ''/login.html''" by (simp add: example_defs)
  have k1: "case Request_Cookie ?r1 ocgateSessionCookieName of
              Inl e \<Rightarrow> True | Inr c \<Rightarrow> Value c = []"
    by (simp add: c1)
  have k2: "case Request_Cookie ?r2 ocgateSessionCookieName of
              Inl e \<Rightarrow> True | Inr c \<Rightarrow> Value c = []"
    by (simp add: c2)
  have n: "\<not> InteractiveAuth gateway" by (simp add: gateway_def)
  have i: "InteractiveAuth (gateway\<lparr>InteractiveAuth := True\<rparr>)" by simp
  have l: "LoginEndpoint (gateway\<lparr>InteractiveAuth := True\<rparr>) = ''/auth/login''"
    by (simp add: gateway_def)
  from AuthMiddleware_degenerate_credential
         [OF disjI1 [OF a1] k1, of gateway accept_all new_ResponseWriter] p1 n
  have t1: "fst (GetRequestToken ?r1) = []"
    and m1: "AuthMiddleware gateway accept_all new_ResponseWriter ?r1
               = Done (handleError new_ResponseWriter (Error ''no token received''))"
    by simp_all
  from AuthMiddleware_degenerate_credential
         [OF disjI2 [OF a2] k2, of "gateway\<lparr>InteractiveAuth := True\<rparr>" accept_all
           new_ResponseWriter] p2 i l
  have t2: "fst (GetRequestToken ?r2) = []"
    and m2: "AuthMiddleware (gateway\<lparr>InteractiveAuth := True\<rparr>) accept_all new_ResponseWriter ?r2
               = Done (Redirect new_ResponseWriter ?r2 ''/auth/login'' 307)"
    by (simp_all add: StatusTemporaryRedirect_def)
  from a1 c1 p1 t1 m1 a2 c2 p2 t2 m2 show ?thesis by blast
qed

section \<open>An authorized request, end to end\<close>

text \<open>
  With \<^verbatim>\<open>APIPath = "/k8s/"\<close> and a verifier that accepts, \<^verbatim>\<open>GET /k8s/pods\<close> leaves the
  middleware with the service credential and the forwarder with the path \<^verbatim>\<open>/pods\<close>.
\<close>

lemma scenario_authorized_request:
  "AuthMiddleware gateway accept_all new_ResponseWriter
     (with_authorization ''Bearer abc123'' (request ''GET'' ''/k8s/pods''))
   = Next new_ResponseWriter
       ((with_authorization ''Bearer abc123'' (request ''GET'' ''/k8s/pods''))
          \<lparr>Header := [''Authorization'' \<mapsto> [''Bearer service-credential'']]\<rparr>)
   \<and> APIProxy gateway upstream
       ((with_authorization ''Bearer abc123'' (request ''GET'' ''/k8s/pods''))
          \<lparr>Header := [''Authorization'' \<mapsto> [''Bearer service-credential'']]\<rparr>)
     = Inr \<lparr>Method = ''GET'',
            URL = \<lparr>Scheme = ''https'', Host = ''kubernetes.default.svc'', Path = ''/pods'',
                   Query = Map.empty\<rparr>,
            Header = [''Authorization'' \<mapsto> [''Bearer service-credential'']],
            Cookies = [], PostForm = Map.empty, MultipartForm = Map.empty\<rparr>"
  by (simp add: AuthMiddleware_translate_example) (simp add: APIProxy_def example_defs)

end
